theory Spec2Isabelle
  imports Complex_Main
begin

section \<open>Asteroid impact simulation: the data model\<close>

text \<open>
  The model follows \<^verbatim>\<open>simulation.py\<close>. A Python float is read as the real number it
  denotes, and the value of an arithmetic expression as its exact value: the rounding of
  values, infinities and NaN are outside this model. What the range of a double does to
  the control flow is written out:
  \<^item> a power \<^verbatim>\<open>x ** n\<close> whose result rounds to infinity raises \<^verbatim>\<open>OverflowError\<close>;
  \<^item> an \<^verbatim>\<open>int\<close> too large for a double raises \<^verbatim>\<open>OverflowError\<close> when converted;
  \<^item> a quotient too small for a double is \<open>0.0\<close> where the source compares it with zero.

  Python exceptions are values of \<open>py_error\<close>; a function that can raise returns
  \<open>py_error + 'a\<close>. The source defines no exception class of its own, so only the
  built-in exceptions its expressions can raise appear here.
\<close>

datatype py_error = TypeError | ValueError | ZeroDivisionError | OverflowError

text \<open>The dict stored under the key \<^verbatim>\<open>'input'\<close>; \<open>None\<close> is an absent coordinate.\<close>

record ImpactInput =
  diameter_m :: real
  velocity_m_s :: real
  density_kg_m3 :: real
  impact_angle_deg :: real
  lat :: "real option"
  lon :: "real option"

text \<open>
  The dicts \<^verbatim>\<open>damage_radii_m\<close> and \<^verbatim>\<open>affected_areas_km2\<close> always carry exactly the
  keys \<^verbatim>\<open>lethal_m\<close>, \<^verbatim>\<open>severe_m\<close> and \<^verbatim>\<open>moderate_m\<close>.
\<close>

record Zones =
  lethal_m :: real
  severe_m :: real
  moderate_m :: real

record ImpactResult =
  input :: ImpactInput
  mass_kg :: real
  energy_joules :: real
  energy_megatons :: real
  crater_diameter_m :: real
  damage_radii_m :: Zones
  affected_areas_km2 :: Zones

section \<open>Arithmetic of the source language\<close>

definition JOULES_PER_MEGATON_TNT :: real where
  "JOULES_PER_MEGATON_TNT = 4184 * 10 ^ 12"

text \<open>\<^verbatim>\<open>math.radians\<close>.\<close>

definition radians :: "real \<Rightarrow> real" where
  "radians x = x * (pi / 180)"

text \<open>
  The least magnitude that rounds to infinity: halfway between the largest double
  \<open>2^1024 - 2^971\<close> and \<open>2^1024\<close>, the tie going to the even neighbour.
\<close>

definition DBL_OVERFLOW :: real where
  "DBL_OVERFLOW = 2 ^ 1024 - 2 ^ 970"

text \<open>
  \<^verbatim>\<open>x ** n\<close> for a float \<open>x\<close> and an \<^verbatim>\<open>int\<close> literal \<open>n\<close>: Python raises
  \<^verbatim>\<open>OverflowError\<close> when the result is too large for a double.
\<close>

definition float_pow_int :: "real \<Rightarrow> nat \<Rightarrow> py_error + real" where
  "float_pow_int x n =
     (if DBL_OVERFLOW \<le> \<bar>x ^ n\<bar> then Inl OverflowError else Inr (x ^ n))"

text \<open>
  A quotient of two doubles is rounded to the nearest double. It is \<open>0.0\<close> exactly when
  its magnitude is at most half the least subnormal \<open>2^-1074\<close> (the tie goes to zero).
\<close>

definition rounds_to_zero :: "real \<Rightarrow> bool" where
  "rounds_to_zero x \<longleftrightarrow> \<bar>x\<bar> \<le> 1 / 2 ^ 1075"

text \<open>
  \<^verbatim>\<open>x ** y\<close> for a float \<open>x\<close> and one of the non-integral exponents of the source
  (\<open>0.25\<close>, \<open>1/3\<close>, \<open>1/9\<close>). On a negative base Python returns a complex number
  instead of raising; \<open>None\<close> stands for that complex result.
\<close>

definition float_pow :: "real \<Rightarrow> real \<Rightarrow> real option" where
  "float_pow x y = (if x < 0 then None else Some (x powr y))"

section \<open>The impact model\<close>

definition mass_from_diameter :: "real \<Rightarrow> real \<Rightarrow> py_error + real" where
  "mass_from_diameter d density =
     (let r = d / 2
      in case float_pow_int r 3 of
           Inl err \<Rightarrow> Inl err
         | Inr cube \<Rightarrow> let volume = (4 / 3) * pi * cube in Inr (density * volume))"

definition kinetic_energy_joules :: "real \<Rightarrow> real \<Rightarrow> py_error + real" where
  "kinetic_energy_joules m v =
     (case float_pow_int v 2 of
        Inl err \<Rightarrow> Inl err
      | Inr square \<Rightarrow> Inr (0.5 * m * square))"

text \<open>
  The function \<^verbatim>\<open>energy_megatons\<close> of the source; the plain name is the field of
  \<open>ImpactResult\<close> that stores its value.
\<close>

definition energy_megatons_fn :: "real \<Rightarrow> real" where
  "energy_megatons_fn e = e / JOULES_PER_MEGATON_TNT"

text \<open>
  The division by \<open>density_target\<close> raises on zero. A complex factor makes the whole
  product complex, and \<^verbatim>\<open>max(1.0, z)\<close> on a complex \<open>z\<close> raises \<^verbatim>\<open>TypeError\<close>.

  The sine is the exact sine of the exact angle in radians. From 0 to 180 degrees the
  computed sine is non-negative as well. Further out the two signs can differ where the
  exact sine vanishes (at 360 degrees the computed sine is a tiny negative number), so
  the statements below about which angles give a result stay within 0 to 180 degrees,
  and those about the value of the crater within 0 to 90 degrees.
\<close>

definition estimate_crater_diameter ::
  "real \<Rightarrow> real \<Rightarrow> real \<Rightarrow> real \<Rightarrow> py_error + real" where
  "estimate_crater_diameter e density_impactor density_target angle_deg =
     (let angle_factor = float_pow (sin (radians angle_deg)) (1 / 3);
          C = 0.035
      in if density_target = 0 then Inl ZeroDivisionError
         else case (float_pow e 0.25, angle_factor,
                    float_pow (density_impactor / density_target) (1 / 9)) of
                (Some p, Some a, Some q) \<Rightarrow> Inr (max 1 (C * p * a * q))
              | _ \<Rightarrow> Inl TypeError)"

text \<open>
  The guard \<^verbatim>\<open>E_mt <= 0\<close> is decided on the computed quotient, which is \<open>0.0\<close> for an
  energy so small that the division underflows. Past the guard \<open>E_mt\<close> is positive, so
  its cube root is a real number.
\<close>

definition estimate_damage_radii :: "real \<Rightarrow> Zones" where
  "estimate_damage_radii e =
     (let E_mt = energy_megatons_fn e
      in if E_mt \<le> 0 \<or> rounds_to_zero E_mt
         then \<lparr>lethal_m = 0, severe_m = 0, moderate_m = 0\<rparr>
         else
           let lethal = 1000 * (E_mt powr (1 / 3));
               severe = 2000 * (E_mt powr (1 / 3)) * 0.6;
               moderate = 3000 * (E_mt powr (1 / 3)) * 1.2
           in \<lparr>lethal_m = max 5 lethal, severe_m = max 10 severe,
               moderate_m = max 20 moderate\<rparr>)"

text \<open>
  The square here is taken of a damage radius, which for a double energy stays below
  \<open>10^102\<close>: it cannot overflow, and the function is modelled as total.
\<close>

definition area_from_radius_m :: "real \<Rightarrow> real" where
  "area_from_radius_m r = (let area_m2 = pi * r ^ 2 in area_m2 / 10 ^ 6)"

text \<open>
  \<^verbatim>\<open>simulate_impact\<close> calls \<^verbatim>\<open>estimate_crater_diameter\<close> without a target density, so
  the default \<open>2500\<close> applies. The dict comprehension maps every radius to its area.
\<close>

definition simulate_impact ::
  "real \<Rightarrow> real \<Rightarrow> real \<Rightarrow> real \<Rightarrow> real option \<Rightarrow> real option \<Rightarrow> py_error + ImpactResult" where
  "simulate_impact d v density angle la lo =
     (case mass_from_diameter d density of
        Inl err \<Rightarrow> Inl err
      | Inr m \<Rightarrow>
          (case kinetic_energy_joules m v of
             Inl err \<Rightarrow> Inl err
           | Inr E \<Rightarrow>
               let E_mt = energy_megatons_fn E
               in case estimate_crater_diameter E density 2500 angle of
                    Inl err \<Rightarrow> Inl err
                  | Inr crater_d \<Rightarrow>
                      let damage_radii = estimate_damage_radii E;
                          areas_km2 =
                            \<lparr>lethal_m = area_from_radius_m (lethal_m damage_radii),
                             severe_m = area_from_radius_m (severe_m damage_radii),
                             moderate_m = area_from_radius_m (moderate_m damage_radii)\<rparr>
                      in Inr \<lparr>input = \<lparr>diameter_m = d, velocity_m_s = v,
                                         density_kg_m3 = density, impact_angle_deg = angle,
                                         lat = la, lon = lo\<rparr>,
                              mass_kg = m, energy_joules = E, energy_megatons = E_mt,
                              crater_diameter_m = crater_d, damage_radii_m = damage_radii,
                              affected_areas_km2 = areas_km2\<rparr>))"

section \<open>Mitigation operators\<close>

definition apply_kinetic_impactor :: "ImpactResult \<Rightarrow> real \<Rightarrow> py_error + ImpactResult" where
  "apply_kinetic_impactor sim_result velocity_reduction_pct =
     (let inp = input sim_result;
          new_velocity = velocity_m_s inp * (1 - velocity_reduction_pct / 100)
      in simulate_impact (diameter_m inp) new_velocity (density_kg_m3 inp)
           (impact_angle_deg inp) (lat inp) (lon inp))"

definition apply_nuclear_deflection :: "ImpactResult \<Rightarrow> real \<Rightarrow> py_error + ImpactResult" where
  "apply_nuclear_deflection sim_result energy_reduction_pct =
     (let inp = input sim_result;
          reduction = energy_reduction_pct / 100;
          factor = sqrt (max 0 (1 - reduction));
          new_velocity = velocity_m_s inp * factor
      in simulate_impact (diameter_m inp) new_velocity (density_kg_m3 inp)
           (impact_angle_deg inp) (lat inp) (lon inp))"

text \<open>
  \<^verbatim>\<open>math.sqrt\<close> first converts the \<^verbatim>\<open>int\<close> count to a double, which raises
  \<^verbatim>\<open>OverflowError\<close> when it does not fit; it then raises \<^verbatim>\<open>ValueError\<close> on a negative
  count, and \<^verbatim>\<open>1.0 / math.sqrt(0)\<close> raises \<^verbatim>\<open>ZeroDivisionError\<close>. All three happen before
  anything else is computed.
\<close>

definition apply_fragmentation :: "ImpactResult \<Rightarrow> int \<Rightarrow> py_error + ImpactResult" where
  "apply_fragmentation sim_result fragment_count =
     (let inp = input sim_result
      in if DBL_OVERFLOW \<le> \<bar>real_of_int fragment_count\<bar> then Inl OverflowError
         else if fragment_count < 0 then Inl ValueError
         else if fragment_count = 0 then Inl ZeroDivisionError
         else
           let factor = 1 / sqrt (real_of_int fragment_count);
               new_velocity = velocity_m_s inp * factor;
               new_diameter = diameter_m inp / (real_of_int fragment_count powr (1 / 3))
           in simulate_impact new_diameter new_velocity (density_kg_m3 inp)
                (impact_angle_deg inp) (lat inp) (lon inp))"

section \<open>The documented input domain\<close>

text \<open>
  The domain the data model gives for an \<open>ImpactInput\<close>: positive diameter, velocity and
  density, and an angle in \<open>(0, 90]\<close>. The source never checks it.
\<close>

definition valid_input :: "ImpactInput \<Rightarrow> bool" where
  "valid_input i \<longleftrightarrow>
     0 < diameter_m i \<and> 0 < velocity_m_s i \<and> 0 < density_kg_m3 i \<and>
     0 < impact_angle_deg i \<and> impact_angle_deg i \<le> 90"

section \<open>Reference formula and example scenario\<close>

text \<open>
  The crater law as the specification words it, with the coefficient \<open>C\<close> and the target
  density as parameters: \<open>max(1, C \<cdot> E^0.25 \<cdot> sin(angle)^(1/3) \<cdot>
  (density_impactor / density_target)^(1/9))\<close>. It is compared with
  \<open>estimate_crater_diameter\<close> below.
\<close>

definition spec_crater_diameter :: "real \<Rightarrow> real \<Rightarrow> real \<Rightarrow> real \<Rightarrow> real \<Rightarrow> real" where
  "spec_crater_diameter C density_target e density_impactor angle_deg =
     max 1 (C * e powr 0.25 * sin (radians angle_deg) powr (1 / 3) *
            (density_impactor / density_target) powr (1 / 9))"

text \<open>
  The concrete scenario of the specification (a 50 m body at 20 km/s, density 3000,
  angle 45 degrees, no location) and the result \<open>simulate_impact\<close> gives for it.
\<close>

definition example_prior :: ImpactResult where
  "example_prior = projr (simulate_impact 50 20000 3000 45 None None)"

section \<open>Basic facts about the model\<close>

text \<open>
  What a returned result holds, field by field, and when a result is returned at all.
\<close>

lemma DBL_OVERFLOW_large: "10 ^ 300 < DBL_OVERFLOW"
  by (simp add: DBL_OVERFLOW_def)

lemma float_pow_int_Inr_iff:
  "float_pow_int x n = Inr y \<longleftrightarrow> \<bar>x ^ n\<bar> < DBL_OVERFLOW \<and> y = x ^ n"
  by (auto simp: float_pow_int_def)

lemma float_pow_int_Inl_iff:
  "float_pow_int x n = Inl err \<longleftrightarrow> DBL_OVERFLOW \<le> \<bar>x ^ n\<bar> \<and> err = OverflowError"
  by (auto simp: float_pow_int_def)

lemma mass_from_diameter_eq:
  "mass_from_diameter d rho =
     (if DBL_OVERFLOW \<le> \<bar>(d / 2) ^ 3\<bar> then Inl OverflowError
      else Inr (pi / 6 * rho * d ^ 3))"
  by (simp add: mass_from_diameter_def Let_def float_pow_int_def power_divide)

lemma kinetic_energy_joules_eq:
  "kinetic_energy_joules m v =
     (if DBL_OVERFLOW \<le> v ^ 2 then Inl OverflowError else Inr (m * v ^ 2 / 2))"
  by (simp add: kinetic_energy_joules_def float_pow_int_def)

lemma simulate_impact_eq:
  "simulate_impact d v rho a la lo =
     (if DBL_OVERFLOW \<le> \<bar>(d / 2) ^ 3\<bar> \<or> DBL_OVERFLOW \<le> v ^ 2 then Inl OverflowError
      else case estimate_crater_diameter (pi / 12 * rho * d ^ 3 * v ^ 2) rho 2500 a of
             Inl err \<Rightarrow> Inl err
           | Inr c \<Rightarrow>
               Inr \<lparr>input = \<lparr>diameter_m = d, velocity_m_s = v, density_kg_m3 = rho,
                                impact_angle_deg = a, lat = la, lon = lo\<rparr>,
                     mass_kg = pi / 6 * rho * d ^ 3,
                     energy_joules = pi / 12 * rho * d ^ 3 * v ^ 2,
                     energy_megatons = energy_megatons_fn (pi / 12 * rho * d ^ 3 * v ^ 2),
                     crater_diameter_m = c,
                     damage_radii_m = estimate_damage_radii (pi / 12 * rho * d ^ 3 * v ^ 2),
                     affected_areas_km2 =
                       \<lparr>lethal_m = area_from_radius_m
                          (lethal_m (estimate_damage_radii (pi / 12 * rho * d ^ 3 * v ^ 2))),
                        severe_m = area_from_radius_m
                          (severe_m (estimate_damage_radii (pi / 12 * rho * d ^ 3 * v ^ 2))),
                        moderate_m = area_from_radius_m
                          (moderate_m (estimate_damage_radii (pi / 12 * rho * d ^ 3 * v ^ 2)))\<rparr>\<rparr>)"
proof -
  have e: "pi / 6 * rho * d ^ 3 * v ^ 2 / 2 = pi / 12 * rho * d ^ 3 * v ^ 2" by simp
  show ?thesis
    unfolding simulate_impact_def mass_from_diameter_eq kinetic_energy_joules_eq
    by (simp only: e Let_def sum.case if_distrib [of "case_sum _ _"] split: if_splits) auto
qed

lemma estimate_crater_diameter_Inr_iff:
  "estimate_crater_diameter e rho 2500 a = Inr c \<longleftrightarrow>
     0 \<le> e \<and> 0 \<le> sin (radians a) \<and> 0 \<le> rho \<and>
     c = max 1 (0.035 * e powr 0.25 * sin (radians a) powr (1 / 3) * (rho / 2500) powr (1 / 9))"
  by (auto simp: estimate_crater_diameter_def float_pow_def Let_def not_less
           split: option.splits if_splits)


lemma simulate_impact_fields:
  assumes "simulate_impact d v rho a la lo = Inr r"
  shows "input r = \<lparr>diameter_m = d, velocity_m_s = v, density_kg_m3 = rho,
                     impact_angle_deg = a, lat = la, lon = lo\<rparr>"
    and "mass_kg r = pi / 6 * rho * d ^ 3"
    and "energy_joules r = pi / 12 * rho * d ^ 3 * v ^ 2"
    and "energy_megatons r = energy_megatons_fn (energy_joules r)"
    and "estimate_crater_diameter (energy_joules r) rho 2500 a = Inr (crater_diameter_m r)"
    and "damage_radii_m r = estimate_damage_radii (energy_joules r)"
    and "affected_areas_km2 r =
           \<lparr>lethal_m = area_from_radius_m (lethal_m (damage_radii_m r)),
            severe_m = area_from_radius_m (severe_m (damage_radii_m r)),
            moderate_m = area_from_radius_m (moderate_m (damage_radii_m r))\<rparr>"
    and "\<bar>(d / 2) ^ 3\<bar> < DBL_OVERFLOW" and "v ^ 2 < DBL_OVERFLOW"
  using assms unfolding simulate_impact_eq
  by (auto split: if_splits sum.splits)

lemma simulate_impact_returns:
  assumes "\<bar>(d / 2) ^ 3\<bar> < DBL_OVERFLOW" and "v ^ 2 < DBL_OVERFLOW"
    and "0 \<le> pi / 12 * rho * d ^ 3 * v ^ 2"
    and "0 \<le> sin (radians a)" and "0 \<le> rho"
  shows "\<exists>r. simulate_impact d v rho a la lo = Inr r"
proof -
  obtain c where c: "estimate_crater_diameter (pi / 12 * rho * d ^ 3 * v ^ 2) rho 2500 a = Inr c"
    using assms(3,4,5) by (simp add: estimate_crater_diameter_Inr_iff)
  show ?thesis unfolding simulate_impact_eq using assms(1,2) c by simp
qed

lemma simulate_impact_Inr_cond:
  assumes "simulate_impact d v rho a la lo = Inr r"
  shows "0 \<le> pi / 12 * rho * d ^ 3 * v ^ 2 \<and> 0 \<le> sin (radians a) \<and> 0 \<le> rho"
  using simulate_impact_fields(3,5) [OF assms]
  by (simp add: estimate_crater_diameter_Inr_iff)


lemma damage_radii_zero_iff:
  "energy_megatons_fn e \<le> 0 \<or> rounds_to_zero (energy_megatons_fn e) \<longleftrightarrow>
     e \<le> JOULES_PER_MEGATON_TNT / 2 ^ 1075"
proof -
  have J: "0 < JOULES_PER_MEGATON_TNT" by (simp add: JOULES_PER_MEGATON_TNT_def)
  have "rounds_to_zero (energy_megatons_fn e) \<longleftrightarrow> \<bar>e\<bar> \<le> JOULES_PER_MEGATON_TNT / 2 ^ 1075"
    using J by (simp add: rounds_to_zero_def energy_megatons_fn_def field_simps)
  moreover have "energy_megatons_fn e \<le> 0 \<longleftrightarrow> e \<le> 0"
    using J by (simp add: energy_megatons_fn_def divide_le_0_iff)
  moreover have "0 < JOULES_PER_MEGATON_TNT / 2 ^ 1075" using J by simp
  ultimately show ?thesis by auto
qed

lemma damage_radii_zero:
  assumes "e \<le> JOULES_PER_MEGATON_TNT / 2 ^ 1075"
  shows "estimate_damage_radii e = \<lparr>lethal_m = 0, severe_m = 0, moderate_m = 0\<rparr>"
  using assms damage_radii_zero_iff [of e] by (simp add: estimate_damage_radii_def Let_def)

lemma damage_radii_floored:
  assumes "JOULES_PER_MEGATON_TNT / 2 ^ 1075 < e"
  shows "estimate_damage_radii e =
           \<lparr>lethal_m = max 5 (1000 * energy_megatons_fn e powr (1 / 3)),
            severe_m = max 10 (2000 * energy_megatons_fn e powr (1 / 3) * 0.6),
            moderate_m = max 20 (3000 * energy_megatons_fn e powr (1 / 3) * 1.2)\<rparr>"
proof -
  have "\<not> (energy_megatons_fn e \<le> 0 \<or> rounds_to_zero (energy_megatons_fn e))"
    using assms damage_radii_zero_iff [of e] by simp
  then show ?thesis by (simp add: estimate_damage_radii_def Let_def)
qed

lemma damage_radii_order:
  "lethal_m (estimate_damage_radii e) \<le> severe_m (estimate_damage_radii e) \<and>
   severe_m (estimate_damage_radii e) \<le> moderate_m (estimate_damage_radii e)"
proof (cases "e \<le> JOULES_PER_MEGATON_TNT / 2 ^ 1075")
  case True
  then show ?thesis by (simp add: damage_radii_zero)
next
  case False
  define x where "x = energy_megatons_fn e powr (1 / 3)"
  have "0 \<le> x" by (simp add: x_def)
  then show ?thesis using False
    by (simp add: damage_radii_floored x_def [symmetric] max_def)
qed


lemma radians_range: "0 \<le> a \<Longrightarrow> a \<le> 180 \<Longrightarrow> 0 \<le> radians a \<and> radians a \<le> pi"
  by (simp add: radians_def)

lemma sin_radians_nonneg:
  assumes "0 \<le> a" "a \<le> 180"
  shows "0 \<le> sin (radians a)"
  using radians_range [OF assms] by (intro sin_ge_zero) simp_all

lemma sin_radians_pos:
  assumes "0 < a" "a \<le> 90"
  shows "0 < sin (radians a)"
proof -
  have "0 < radians a" "radians a \<le> pi / 2" using assms by (simp_all add: radians_def)
  moreover have "pi / 2 < pi" by simp
  ultimately show ?thesis by (intro sin_gt_zero) linarith+
qed



lemma sin_radians_270: "sin (radians 270) = - 1"
proof -
  have "radians 270 = pi / 2 + pi" by (simp add: radians_def)
  then have "sin (radians 270) = sin (pi / 2 + pi)" by (simp only:)
  also have "\<dots> = - sin (pi / 2)" by (rule sin_periodic_pi)
  finally show ?thesis by simp
qed

lemma valid_energy_pos:
  assumes "0 < d" "0 < rho" "0 < v"
  shows "0 < pi / 12 * rho * d ^ 3 * v ^ 2"
  using assms by simp

lemma simulate_impact_valid:
  assumes "valid_input \<lparr>diameter_m = d, velocity_m_s = v, density_kg_m3 = rho,
                         impact_angle_deg = a, lat = la, lon = lo\<rparr>"
    and "(d / 2) ^ 3 < DBL_OVERFLOW" and "v ^ 2 < DBL_OVERFLOW"
  shows "\<exists>r. simulate_impact d v rho a la lo = Inr r"
proof -
  from assms(1) have dom: "0 < d" "0 < v" "0 < rho" "0 < a" "a \<le> 90"
    by (simp_all add: valid_input_def)
  have "\<bar>(d / 2) ^ 3\<bar> < DBL_OVERFLOW" using dom(1) assms(2) by simp
  then show ?thesis
    using assms(3) valid_energy_pos [OF dom(1,3,2)] sin_radians_pos [OF dom(4,5)] dom(3)
    by (intro simulate_impact_returns) simp_all
qed


lemma small_no_overflow:
  assumes "\<bar>x\<bar> \<le> 10 ^ 300"
  shows "\<bar>x\<bar> < DBL_OVERFLOW"
  using assms DBL_OVERFLOW_large by linarith

lemma negative_density_fails:
  "simulate_impact 50 20000 (- 3000) 45 la lo = Inl TypeError"
proof -
  have "\<not> DBL_OVERFLOW \<le> \<bar>(50 / 2) ^ 3 :: real\<bar>" "\<not> DBL_OVERFLOW \<le> (20000 ^ 2 :: real)"
    using DBL_OVERFLOW_large by simp_all
  then show ?thesis
    unfolding simulate_impact_eq
    by (simp add: estimate_crater_diameter_def float_pow_def Let_def)
qed


subsection \<open>Scaling the velocity and the diameter\<close>

lemma cube_of_cube_root:
  assumes "0 < (x::real)"
  shows "(x powr (1 / 3)) ^ 3 = x"
proof -
  have "(x powr (1 / 3)) ^ 3 = (x powr (1 / 3)) powr 3"
    using assms by (simp add: powr_numeral)
  also have "\<dots> = x powr 1" by (simp add: powr_powr)
  finally show ?thesis using assms by simp
qed

lemma cube_root_8: "(8::real) powr (1 / 3) = 2"
proof -
  have "(8::real) = 2 powr 3" by simp
  then have "(8::real) powr (1 / 3) = (2 powr 3) powr (1 / 3)" by simp
  also have "\<dots> = 2 powr 1" by (simp only: powr_powr) simp
  finally show ?thesis by simp
qed

lemma simulate_impact_scaled:
  assumes prior: "simulate_impact d v rho a la lo = Inr prior"
    and d': "\<bar>(d' / 2) ^ 3\<bar> \<le> \<bar>(d / 2) ^ 3\<bar>" and v': "v' ^ 2 \<le> v ^ 2"
    and e': "pi / 12 * rho * d' ^ 3 * v' ^ 2 = k * (pi / 12 * rho * d ^ 3 * v ^ 2)"
    and k: "0 \<le> k"
  shows "\<exists>r. simulate_impact d' v' rho a la lo = Inr r \<and>
             diameter_m (input r) = d' \<and> velocity_m_s (input r) = v' \<and>
             energy_joules r = k * energy_joules prior \<and>
             energy_megatons r = k * energy_megatons prior"
proof -
  from simulate_impact_Inr_cond [OF prior]
  have c: "0 \<le> pi / 12 * rho * d ^ 3 * v ^ 2" "0 \<le> sin (radians a)" "0 \<le> rho"
    by simp_all
  have o: "\<bar>(d' / 2) ^ 3\<bar> < DBL_OVERFLOW" "v' ^ 2 < DBL_OVERFLOW"
    using simulate_impact_fields(8,9) [OF prior] d' v' by linarith+
  have "0 \<le> pi / 12 * rho * d' ^ 3 * v' ^ 2"
    unfolding e' using c(1) k by (rule mult_nonneg_nonneg [rotated])
  from simulate_impact_returns [OF o this c(2,3)]
  obtain r where r: "simulate_impact d' v' rho a la lo = Inr r" by blast
  have "energy_joules r = k * energy_joules prior"
    using simulate_impact_fields(3) [OF r] simulate_impact_fields(3) [OF prior] e'
    by (simp only:)
  moreover have "energy_megatons r = k * energy_megatons prior"
    using simulate_impact_fields(4) [OF r] simulate_impact_fields(4) [OF prior] calculation
    by (simp add: energy_megatons_fn_def)
  ultimately show ?thesis
    using r simulate_impact_fields(1) [OF r] by simp
qed

subsection \<open>Monotonicity and the floors\<close>







lemma underflow_below_one: "JOULES_PER_MEGATON_TNT / 2 ^ 1075 < 1"
  by (simp add: JOULES_PER_MEGATON_TNT_def)



subsection \<open>The example scenario\<close>

lemma simulate_impact_valid_small:
  assumes valid: "valid_input \<lparr>diameter_m = d, velocity_m_s = v, density_kg_m3 = rho,
                         impact_angle_deg = a, lat = la, lon = lo\<rparr>"
    and "d \<le> 10 ^ 100" and "v \<le> 10 ^ 100"
  shows "\<exists>r. simulate_impact d v rho a la lo = Inr r"
proof -
  from valid have dom: "0 < d" "0 < v" by (simp_all add: valid_input_def)
  have "(d / 2) ^ 3 \<le> (10 ^ 100) ^ 3" using dom(1) assms(2) by (intro power_mono) simp_all
  then have d: "(d / 2) ^ 3 < DBL_OVERFLOW" using DBL_OVERFLOW_large by simp
  have "v ^ 2 \<le> (10 ^ 100) ^ 2" using dom(2) assms(3) by (intro power_mono) simp_all
  then have v: "v ^ 2 < DBL_OVERFLOW" using DBL_OVERFLOW_large by simp
  show ?thesis by (rule simulate_impact_valid [OF valid d v])
qed

lemma valid_example:
  "valid_input \<lparr>diameter_m = 50, velocity_m_s = 20000, density_kg_m3 = 3000,
                impact_angle_deg = 45, lat = None, lon = None\<rparr>"
  by (simp add: valid_input_def)

lemma example_prior_result:
  "simulate_impact 50 20000 3000 45 None None = Inr example_prior"
  using simulate_impact_valid_small [OF valid_example] by (auto simp: example_prior_def)

lemma example_prior_input:
  "input example_prior = \<lparr>diameter_m = 50, velocity_m_s = 20000, density_kg_m3 = 3000,
                            impact_angle_deg = 45, lat = None, lon = None\<rparr>"
  by (rule simulate_impact_fields(1) [OF example_prior_result])

lemma kinetic_example_returns: "\<exists>r. apply_kinetic_impactor example_prior 20 = Inr r"
  using simulate_impact_valid_small [of 50 16000 3000 45 None None]
  by (simp add: apply_kinetic_impactor_def example_prior_input valid_input_def Let_def)

lemma nuclear_example_returns: "\<exists>r. apply_nuclear_deflection example_prior 20 = Inr r"
proof -
  have "sqrt (4 / 5) \<le> 1" by simp
  then have "20000 * sqrt (4 / 5) \<le> 20000 * 1" by (intro mult_left_mono) simp_all
  also have "\<dots> \<le> (10::real) ^ 100" by simp
  finally show ?thesis
    using simulate_impact_valid_small [of 50 "20000 * sqrt (4 / 5)" 3000 45 None None]
    by (simp add: apply_nuclear_deflection_def example_prior_input valid_input_def Let_def)
qed

lemma eight_fits: "\<not> DBL_OVERFLOW \<le> 8"
  using DBL_OVERFLOW_large by simp

lemma fragmentation_example_returns: "\<exists>r. apply_fragmentation example_prior 8 = Inr r"
proof -
  have "1 \<le> sqrt 8" by simp
  then have "20000 / sqrt 8 \<le> 20000" by (simp add: field_simps)
  then have "20000 / sqrt 8 \<le> 10 ^ 100" by simp
  then show ?thesis
    using simulate_impact_valid_small [of 25 "20000 / sqrt 8" 3000 45 None None] eight_fits
    by (simp add: apply_fragmentation_def example_prior_input valid_input_def Let_def cube_root_8)
qed

section \<open>Damage radii\<close>

text \<open>
  C1. The radii returned by \<open>estimate_damage_radii\<close> are ordered
  \<open>lethal_m \<le> severe_m \<le> moderate_m\<close> for every energy, in the zero branch and under
  the floors alike, and so are the radii stored in every result of \<open>simulate_impact\<close>.
\<close>

theorem damage_radii_ordered:
  "lethal_m (estimate_damage_radii e) \<le> severe_m (estimate_damage_radii e) \<and>
   severe_m (estimate_damage_radii e) \<le> moderate_m (estimate_damage_radii e) \<and>
   (\<forall>r. simulate_impact d v rho a la lo = Inr r \<longrightarrow>
      lethal_m (damage_radii_m r) \<le> severe_m (damage_radii_m r) \<and>
      severe_m (damage_radii_m r) \<le> moderate_m (damage_radii_m r))"
  using damage_radii_order [of e] simulate_impact_fields(6) [of d v rho a la lo]
    damage_radii_order [of "pi / 12 * rho * d ^ 3 * v ^ 2"]
    simulate_impact_fields(3) [of d v rho a la lo]
  by auto

theorem damage_radii_ordered_witness:
  "\<exists>r. simulate_impact 50 20000 3000 45 None None = Inr r \<and>
       lethal_m (damage_radii_m r) \<le> severe_m (damage_radii_m r) \<and>
       severe_m (damage_radii_m r) \<le> moderate_m (damage_radii_m r)"
  using example_prior_result
    damage_radii_ordered [of 0 50 20000 3000 45 None None]
  by blast

text \<open>
  C4, as stated, fails: the zero branch is taken on the energy in megatons, and the
  conversion of a positive energy below about \<open>1.03e-308\<close> joules underflows to \<open>0.0\<close>.
  The positive energy \<open>2^-1024\<close> gives the radii 0, 0 and 0, not the floors.
\<close>

theorem damage_radii_underflow_counterexample:
  "(0::real) < 1 / 2 ^ 1024 \<and>
   estimate_damage_radii (1 / 2 ^ 1024) = \<lparr>lethal_m = 0, severe_m = 0, moderate_m = 0\<rparr>"
proof -
  have "(1 / 2 ^ 1024 :: real) \<le> JOULES_PER_MEGATON_TNT / 2 ^ 1075"
    by (simp add: JOULES_PER_MEGATON_TNT_def)
  then show ?thesis by (simp add: damage_radii_zero)
qed

text \<open>
  C4, amended. The energy in megatons is at most zero, as computed, exactly for the
  energies up to \<open>4.184e15 \<cdot> 2^-1075\<close> joules: every energy at most zero and the
  positive ones whose conversion underflows. For these \<open>estimate_damage_radii\<close> returns
  exactly zero for all three radii; for every larger energy the radii are at least their
  floors 5, 10 and 20.
\<close>

theorem damage_radii_zero_and_floors:
  "(energy_megatons_fn e \<le> 0 \<or> rounds_to_zero (energy_megatons_fn e)
      \<longleftrightarrow> e \<le> JOULES_PER_MEGATON_TNT / 2 ^ 1075) \<and>
   (e \<le> JOULES_PER_MEGATON_TNT / 2 ^ 1075 \<longrightarrow>
      estimate_damage_radii e = \<lparr>lethal_m = 0, severe_m = 0, moderate_m = 0\<rparr>) \<and>
   (JOULES_PER_MEGATON_TNT / 2 ^ 1075 < e \<longrightarrow>
      5 \<le> lethal_m (estimate_damage_radii e) \<and>
      10 \<le> severe_m (estimate_damage_radii e) \<and>
      20 \<le> moderate_m (estimate_damage_radii e))"
  using damage_radii_zero_iff [of e] damage_radii_zero [of e] damage_radii_floored [of e]
  by simp

theorem damage_radii_zero_and_floors_witness:
  "(- 1 :: real) \<le> JOULES_PER_MEGATON_TNT / 2 ^ 1075 \<and>
   estimate_damage_radii (- 1) = \<lparr>lethal_m = 0, severe_m = 0, moderate_m = 0\<rparr> \<and>
   (1 / 2 ^ 1024 :: real) \<le> JOULES_PER_MEGATON_TNT / 2 ^ 1075 \<and>
   estimate_damage_radii (1 / 2 ^ 1024) = \<lparr>lethal_m = 0, severe_m = 0, moderate_m = 0\<rparr> \<and>
   JOULES_PER_MEGATON_TNT / 2 ^ 1075 < 1 \<and>
   5 \<le> lethal_m (estimate_damage_radii 1) \<and>
   10 \<le> severe_m (estimate_damage_radii 1) \<and>
   20 \<le> moderate_m (estimate_damage_radii 1)"
proof -
  have neg: "(- 1 :: real) \<le> JOULES_PER_MEGATON_TNT / 2 ^ 1075"
    by (simp add: JOULES_PER_MEGATON_TNT_def)
  have tiny: "(1 / 2 ^ 1024 :: real) \<le> JOULES_PER_MEGATON_TNT / 2 ^ 1075"
    by (simp add: JOULES_PER_MEGATON_TNT_def)
  show ?thesis
    using neg tiny underflow_below_one
      damage_radii_zero_and_floors [of "- 1"] damage_radii_zero_and_floors [of "1 / 2 ^ 1024"]
      damage_radii_zero_and_floors [of 1]
    by blast
qed

section \<open>Monotonicity in the velocity\<close>




section \<open>Out-of-domain inputs\<close>




section \<open>Crater diameter\<close>

text \<open>
  C7, as stated for every energy, density and angle, fails: a negative energy, a
  negative impactor density or an angle with a negative sine makes a power complex, and
  the floor \<open>max\<close> raises \<open>TypeError\<close>.
\<close>

theorem crater_outside_domain_counterexample:
  "estimate_crater_diameter (- 1) 3000 2500 45 = Inl TypeError \<and>
   estimate_crater_diameter 1 (- 3000) 2500 45 = Inl TypeError \<and>
   estimate_crater_diameter 1 3000 2500 270 = Inl TypeError"
  by (simp add: estimate_crater_diameter_def float_pow_def sin_radians_270 Let_def)

text \<open>
  C7, amended. For every non-negative energy and impactor density and every angle from
  0 to 90 degrees, \<open>estimate_crater_diameter\<close> returns the power law of the
  specification with \<open>C = 0.035\<close> and the target density fixed at 2500, whatever the
  impactor density. For such an angle the crater diameter stored by \<open>simulate_impact\<close>
  is that value at the stored energy.
\<close>

theorem crater_diameter_law:
  "(0 \<le> e \<and> 0 \<le> rho \<and> 0 \<le> a \<and> a \<le> 90 \<longrightarrow>
      estimate_crater_diameter e rho 2500 a = Inr (spec_crater_diameter 0.035 2500 e rho a)) \<and>
   (\<forall>r. 0 \<le> a \<and> a \<le> 90 \<and> simulate_impact d v rho a la lo = Inr r \<longrightarrow>
      crater_diameter_m r = spec_crater_diameter 0.035 2500 (energy_joules r) rho a)"
proof (intro conjI allI impI)
  assume "0 \<le> e \<and> 0 \<le> rho \<and> 0 \<le> a \<and> a \<le> 90"
  then show "estimate_crater_diameter e rho 2500 a
             = Inr (spec_crater_diameter 0.035 2500 e rho a)"
    using sin_radians_nonneg [of a]
    by (simp add: estimate_crater_diameter_Inr_iff spec_crater_diameter_def)
next
  fix r assume "0 \<le> a \<and> a \<le> 90 \<and> simulate_impact d v rho a la lo = Inr r"
  then have "simulate_impact d v rho a la lo = Inr r" by simp
  from simulate_impact_fields(5) [OF this]
  show "crater_diameter_m r = spec_crater_diameter 0.035 2500 (energy_joules r) rho a"
    by (simp add: estimate_crater_diameter_Inr_iff spec_crater_diameter_def)
qed

theorem crater_diameter_law_witness:
  "(0::real) \<le> 1 \<and> (0::real) \<le> 3000 \<and> (0::real) \<le> 45 \<and> (45::real) \<le> 90 \<and>
   estimate_crater_diameter 1 3000 2500 45 = Inr (spec_crater_diameter 0.035 2500 1 3000 45) \<and>
   simulate_impact 50 20000 3000 45 None None = Inr example_prior \<and>
   crater_diameter_m example_prior
     = spec_crater_diameter 0.035 2500 (energy_joules example_prior) 3000 45"
  using example_prior_result crater_diameter_law [of 1 3000 45 50 20000 None None]
  by simp

section \<open>Mitigation operators: transforms\<close>

text \<open>
  C5. For a prior result of \<open>simulate_impact\<close> and a reduction percentage in \<open>(0, 100)\<close>,
  \<open>apply_nuclear_deflection\<close> returns a result whose velocity is
  \<open>velocity * sqrt(1 - pct/100)\<close> and whose energy, in joules and in megatons, is the
  prior energy times \<open>1 - pct/100\<close>; at 60 percent the energy in megatons is the prior
  one times 0.40.
\<close>

theorem nuclear_deflection_energy:
  assumes "simulate_impact d v rho a la lo = Inr prior" and "0 < pct" and "pct < 100"
  shows "\<exists>r. apply_nuclear_deflection prior pct = Inr r \<and>
             velocity_m_s (input r) = v * sqrt (1 - pct / 100) \<and>
             energy_joules r = energy_joules prior * (1 - pct / 100) \<and>
             energy_megatons r = energy_megatons prior * (1 - pct / 100) \<and>
             (pct = 60 \<longrightarrow> energy_megatons r = energy_megatons prior * 0.40)"
proof -
  define k where "k = 1 - pct / 100"
  have k: "0 \<le> k" "k \<le> 1" using assms(2,3) by (simp_all add: k_def)
  have sq: "(v * sqrt k) ^ 2 = v ^ 2 * k" using k(1) by (simp add: power_mult_distrib)
  have "v ^ 2 * k \<le> v ^ 2 * 1" using k(2) by (intro mult_left_mono) simp_all
  then have v': "(v * sqrt k) ^ 2 \<le> v ^ 2" by (simp add: sq)
  have e': "pi / 12 * rho * d ^ 3 * (v * sqrt k) ^ 2 = k * (pi / 12 * rho * d ^ 3 * v ^ 2)"
    by (simp add: sq)
  from simulate_impact_scaled [OF assms(1) _ v' e' k(1)]
  obtain r where r: "simulate_impact d (v * sqrt k) rho a la lo = Inr r"
    "velocity_m_s (input r) = v * sqrt k"
    "energy_joules r = k * energy_joules prior"
    "energy_megatons r = k * energy_megatons prior" by auto
  have "apply_nuclear_deflection prior pct = simulate_impact d (v * sqrt k) rho a la lo"
    using simulate_impact_fields(1) [OF assms(1)] k
    by (simp add: apply_nuclear_deflection_def Let_def k_def max_def)
  with r show ?thesis by (auto simp: k_def)
qed

theorem nuclear_deflection_energy_witness:
  "simulate_impact 50 20000 3000 45 None None = Inr example_prior \<and>
   (0::real) < 60 \<and> (60::real) < 100 \<and>
   (\<exists>r. apply_nuclear_deflection example_prior 60 = Inr r \<and>
        velocity_m_s (input r) = 20000 * sqrt (1 - 60 / 100) \<and>
        energy_joules r = energy_joules example_prior * (1 - 60 / 100) \<and>
        energy_megatons r = energy_megatons example_prior * 0.40)"
  using nuclear_deflection_energy [OF example_prior_result, of 60] example_prior_result
  by auto

text \<open>
  C6, as stated for every fragment count of at least 2, fails: a count that does not fit
  a double, such as \<open>2^1024\<close>, raises \<open>OverflowError\<close> in \<^verbatim>\<open>math.sqrt\<close>.
\<close>

theorem fragmentation_counterexample:
  "simulate_impact 50 20000 3000 45 None None = Inr example_prior \<and>
   (2::int) \<le> 2 ^ 1024 \<and>
   apply_fragmentation example_prior (2 ^ 1024) = Inl OverflowError"
proof -
  have "DBL_OVERFLOW \<le> \<bar>real_of_int (2 ^ 1024)\<bar>" by (simp add: DBL_OVERFLOW_def)
  then have "apply_fragmentation example_prior (2 ^ 1024) = Inl OverflowError"
    by (simp only: apply_fragmentation_def Let_def if_True)
  then show ?thesis using example_prior_result by simp
qed

text \<open>
  C6, amended. For a prior result of \<open>simulate_impact\<close> and a fragment count of at least
  2 that fits a double (below \<open>2^1024 - 2^970\<close>), \<open>apply_fragmentation\<close> returns a result
  whose velocity is \<open>velocity / sqrt(fragment_count)\<close> and whose diameter is
  \<open>diameter / fragment_count^(1/3)\<close>; with 8 fragments the new diameter is half the
  prior one.
\<close>

theorem fragmentation_transform:
  assumes "simulate_impact d v rho a la lo = Inr prior" and "2 \<le> n"
    and "real_of_int n < DBL_OVERFLOW"
  shows "\<exists>r. apply_fragmentation prior n = Inr r \<and>
             velocity_m_s (input r) = v / sqrt (real_of_int n) \<and>
             diameter_m (input r) = d / real_of_int n powr (1 / 3) \<and>
             (n = 8 \<longrightarrow> diameter_m (input r) = d / 2)"
proof -
  define x where "x = real_of_int n"
  have x: "0 < x" "1 \<le> x" using assms(2) by (simp_all add: x_def)
  have c: "(x powr (1 / 3)) ^ 3 = x" by (rule cube_of_cube_root [OF x(1)])
  have s: "(sqrt x) ^ 2 = x" using x(1) by simp
  have d3: "(d / x powr (1 / 3)) ^ 3 = d ^ 3 / x" by (simp add: power_divide c)
  have v2: "(v * (1 / sqrt x)) ^ 2 = v ^ 2 / x" by (simp add: power_divide s)
  have "\<bar>(d / 2) ^ 3\<bar> / x \<le> \<bar>(d / 2) ^ 3\<bar> / 1"
    using x by (intro divide_left_mono) simp_all
  moreover have "(d / x powr (1 / 3) / 2) ^ 3 = (d / 2) ^ 3 / x"
    by (simp add: power_divide c)
  ultimately have d': "\<bar>(d / x powr (1 / 3) / 2) ^ 3\<bar> \<le> \<bar>(d / 2) ^ 3\<bar>"
    using x(1) by (simp add: abs_divide)
  have "v ^ 2 / x \<le> v ^ 2 / 1" using x by (intro divide_left_mono) simp_all
  then have v': "(v * (1 / sqrt x)) ^ 2 \<le> v ^ 2" unfolding v2 by simp
  have e': "pi / 12 * rho * (d / x powr (1 / 3)) ^ 3 * (v * (1 / sqrt x)) ^ 2
            = (1 / x ^ 2) * (pi / 12 * rho * d ^ 3 * v ^ 2)"
    using x(1) by (simp add: d3 v2 power2_eq_square)
  have "0 \<le> 1 / x ^ 2" by simp
  from simulate_impact_scaled [OF assms(1) d' v' e' this]
  obtain r where r:
    "simulate_impact (d / (x powr (1 / 3))) (v * (1 / sqrt x)) rho a la lo = Inr r"
    "diameter_m (input r) = d / (x powr (1 / 3))"
    "velocity_m_s (input r) = v * (1 / sqrt x)"
    by auto
  have "\<not> DBL_OVERFLOW \<le> \<bar>real_of_int n\<bar>" using assms(2,3) by simp
  then have "apply_fragmentation prior n
        = simulate_impact (d / (x powr (1 / 3))) (v * (1 / sqrt x)) rho a la lo"
    using simulate_impact_fields(1) [OF assms(1)] assms(2)
    by (simp add: apply_fragmentation_def Let_def x_def)
  moreover have "n = 8 \<Longrightarrow> x powr (1 / 3) = 2"
    using cube_root_8 by (simp add: x_def)
  ultimately show ?thesis using r by (auto simp: x_def)
qed

theorem fragmentation_transform_witness:
  "simulate_impact 50 20000 3000 45 None None = Inr example_prior \<and> (2::int) \<le> 8 \<and>
   real_of_int 8 < DBL_OVERFLOW \<and>
   (\<exists>r. apply_fragmentation example_prior 8 = Inr r \<and>
        velocity_m_s (input r) = 20000 / sqrt 8 \<and>
        diameter_m (input r) = 25)"
proof -
  have fits: "real_of_int 8 < DBL_OVERFLOW" using DBL_OVERFLOW_large by simp
  show ?thesis
    using fragmentation_transform [OF example_prior_result _ fits] example_prior_result fits
    by auto
qed

text \<open>
  C9. For a prior result of \<open>simulate_impact\<close> and a reduction percentage in \<open>(0, 100)\<close>,
  \<open>apply_kinetic_impactor\<close> returns a result whose velocity is
  \<open>velocity * (1 - pct/100)\<close>; at 20 percent, on a prior with positive energy, the
  resulting energy in joules is strictly below the prior one.
\<close>

theorem kinetic_impactor_transform:
  assumes "simulate_impact d v rho a la lo = Inr prior" and "0 < pct" and "pct < 100"
  shows "\<exists>r. apply_kinetic_impactor prior pct = Inr r \<and>
             velocity_m_s (input r) = v * (1 - pct / 100) \<and>
             energy_joules r = energy_joules prior * (1 - pct / 100) ^ 2 \<and>
             (pct = 20 \<and> 0 < energy_joules prior \<longrightarrow> energy_joules r < energy_joules prior)"
proof -
  define f where "f = 1 - pct / 100"
  have f: "0 \<le> f" "f \<le> 1" using assms(2,3) by (simp_all add: f_def)
  then have "f ^ 2 \<le> 1" by (simp add: power_le_one)
  then have "v ^ 2 * f ^ 2 \<le> v ^ 2 * 1" by (intro mult_left_mono) simp_all
  then have v': "(v * f) ^ 2 \<le> v ^ 2" by (simp add: power_mult_distrib)
  have e': "pi / 12 * rho * d ^ 3 * (v * f) ^ 2 = f ^ 2 * (pi / 12 * rho * d ^ 3 * v ^ 2)"
    by (simp add: power_mult_distrib)
  have "0 \<le> f ^ 2" by simp
  from simulate_impact_scaled [OF assms(1) _ v' e' this]
  obtain r where r: "simulate_impact d (v * f) rho a la lo = Inr r"
    "velocity_m_s (input r) = v * f"
    "energy_joules r = f ^ 2 * energy_joules prior"
    by auto
  have "apply_kinetic_impactor prior pct = simulate_impact d (v * f) rho a la lo"
    using simulate_impact_fields(1) [OF assms(1)]
    by (simp add: apply_kinetic_impactor_def Let_def f_def)
  moreover have "pct = 20 \<Longrightarrow> 0 < energy_joules prior \<Longrightarrow>
                 f ^ 2 * energy_joules prior < energy_joules prior"
    by (simp add: f_def power2_eq_square)
  ultimately show ?thesis using r by (auto simp: f_def)
qed

theorem kinetic_impactor_transform_witness:
  "simulate_impact 50 20000 3000 45 None None = Inr example_prior \<and>
   (0::real) < 20 \<and> (20::real) < 100 \<and> 0 < energy_joules example_prior \<and>
   (\<exists>r. apply_kinetic_impactor example_prior 20 = Inr r \<and>
        velocity_m_s (input r) = 16000 \<and>
        energy_joules r < energy_joules example_prior)"
proof -
  have pos: "0 < energy_joules example_prior"
    using simulate_impact_fields(3) [OF example_prior_result]
      valid_energy_pos [of 50 3000 20000] by simp
  show ?thesis
    using kinetic_impactor_transform [OF example_prior_result, of 20] example_prior_result pos
    by auto
qed

section \<open>Frame conditions\<close>

text \<open>
  C8. Each mitigation operator is a function of the prior's stored input alone: two priors
  with the same input give the same output, whatever their derived fields. The input
  stored in the output keeps \<open>lat\<close>, \<open>lon\<close>, \<open>density_kg_m3\<close> and \<open>impact_angle_deg\<close>
  of the prior, and also \<open>diameter_m\<close> for the kinetic impactor and the nuclear deflection.
\<close>

theorem mitigation_frame:
  "(input p = input p' \<longrightarrow>
      apply_kinetic_impactor p pct = apply_kinetic_impactor p' pct \<and>
      apply_nuclear_deflection p pct = apply_nuclear_deflection p' pct \<and>
      apply_fragmentation p n = apply_fragmentation p' n) \<and>
   (\<forall>r. apply_kinetic_impactor p pct = Inr r \<or> apply_nuclear_deflection p pct = Inr r \<longrightarrow>
      lat (input r) = lat (input p) \<and> lon (input r) = lon (input p) \<and>
      density_kg_m3 (input r) = density_kg_m3 (input p) \<and>
      impact_angle_deg (input r) = impact_angle_deg (input p) \<and>
      diameter_m (input r) = diameter_m (input p)) \<and>
   (\<forall>r. apply_fragmentation p n = Inr r \<longrightarrow>
      lat (input r) = lat (input p) \<and> lon (input r) = lon (input p) \<and>
      density_kg_m3 (input r) = density_kg_m3 (input p) \<and>
      impact_angle_deg (input r) = impact_angle_deg (input p))"
proof (intro conjI allI impI)
  fix r assume "apply_fragmentation p n = Inr r"
  then have "\<exists>d v. simulate_impact d v (density_kg_m3 (input p)) (impact_angle_deg (input p))
                      (lat (input p)) (lon (input p)) = Inr r"
    by (auto simp: apply_fragmentation_def Let_def split: if_splits)
  then obtain d v where "simulate_impact d v (density_kg_m3 (input p))
      (impact_angle_deg (input p)) (lat (input p)) (lon (input p)) = Inr r" by blast
  from simulate_impact_fields(1) [OF this]
  show "lat (input r) = lat (input p)" "lon (input r) = lon (input p)"
    "density_kg_m3 (input r) = density_kg_m3 (input p)"
    "impact_angle_deg (input r) = impact_angle_deg (input p)" by simp_all
next
  fix r assume "apply_kinetic_impactor p pct = Inr r \<or> apply_nuclear_deflection p pct = Inr r"
  then have "\<exists>v. simulate_impact (diameter_m (input p)) v (density_kg_m3 (input p))
                    (impact_angle_deg (input p)) (lat (input p)) (lon (input p)) = Inr r"
    by (auto simp: apply_kinetic_impactor_def apply_nuclear_deflection_def Let_def)
  then obtain v where "simulate_impact (diameter_m (input p)) v (density_kg_m3 (input p))
      (impact_angle_deg (input p)) (lat (input p)) (lon (input p)) = Inr r" by blast
  from simulate_impact_fields(1) [OF this]
  show "lat (input r) = lat (input p)" "lon (input r) = lon (input p)"
    "density_kg_m3 (input r) = density_kg_m3 (input p)"
    "impact_angle_deg (input r) = impact_angle_deg (input p)"
    "diameter_m (input r) = diameter_m (input p)" by simp_all
qed (simp_all add: apply_kinetic_impactor_def apply_nuclear_deflection_def
       apply_fragmentation_def)

theorem mitigation_frame_witness:
  "input (example_prior\<lparr>mass_kg := 0, energy_joules := 0\<rparr>) = input example_prior \<and>
   apply_kinetic_impactor (example_prior\<lparr>mass_kg := 0, energy_joules := 0\<rparr>) 20
     = apply_kinetic_impactor example_prior 20 \<and>
   apply_nuclear_deflection (example_prior\<lparr>mass_kg := 0, energy_joules := 0\<rparr>) 20
     = apply_nuclear_deflection example_prior 20 \<and>
   apply_fragmentation (example_prior\<lparr>mass_kg := 0, energy_joules := 0\<rparr>) 8
     = apply_fragmentation example_prior 8 \<and>
   (\<exists>r. apply_kinetic_impactor example_prior 20 = Inr r \<and>
        lat (input r) = None \<and> lon (input r) = None \<and> density_kg_m3 (input r) = 3000 \<and>
        impact_angle_deg (input r) = 45 \<and> diameter_m (input r) = 50) \<and>
   (\<exists>r. apply_nuclear_deflection example_prior 20 = Inr r \<and>
        lat (input r) = None \<and> lon (input r) = None \<and> density_kg_m3 (input r) = 3000 \<and>
        impact_angle_deg (input r) = 45 \<and> diameter_m (input r) = 50) \<and>
   (\<exists>r. apply_fragmentation example_prior 8 = Inr r \<and>
        lat (input r) = None \<and> lon (input r) = None \<and> density_kg_m3 (input r) = 3000 \<and>
        impact_angle_deg (input r) = 45)"
proof -
  let ?p = "example_prior\<lparr>mass_kg := 0, energy_joules := 0\<rparr>"
  have same: "input ?p = input example_prior" by simp
  note dep = mitigation_frame [where p = ?p and p' = example_prior and pct = 20 and n = 8]
  note out = mitigation_frame [where p = example_prior and p' = example_prior and pct = 20 and n = 8]
  have eqs: "apply_kinetic_impactor ?p 20 = apply_kinetic_impactor example_prior 20"
    "apply_nuclear_deflection ?p 20 = apply_nuclear_deflection example_prior 20"
    "apply_fragmentation ?p 8 = apply_fragmentation example_prior 8"
    using dep same by blast+
  obtain rk where rk: "apply_kinetic_impactor example_prior 20 = Inr rk"
    using kinetic_example_returns by blast
  obtain rn where rn: "apply_nuclear_deflection example_prior 20 = Inr rn"
    using nuclear_example_returns by blast
  obtain rf where rf: "apply_fragmentation example_prior 8 = Inr rf"
    using fragmentation_example_returns by blast
  have k: "lat (input rk) = lat (input example_prior) \<and> lon (input rk) = lon (input example_prior) \<and>
        density_kg_m3 (input rk) = density_kg_m3 (input example_prior) \<and>
        impact_angle_deg (input rk) = impact_angle_deg (input example_prior) \<and>
        diameter_m (input rk) = diameter_m (input example_prior)"
    using out rk by blast
  have n: "lat (input rn) = lat (input example_prior) \<and> lon (input rn) = lon (input example_prior) \<and>
        density_kg_m3 (input rn) = density_kg_m3 (input example_prior) \<and>
        impact_angle_deg (input rn) = impact_angle_deg (input example_prior) \<and>
        diameter_m (input rn) = diameter_m (input example_prior)"
    using out rn by blast
  have f: "lat (input rf) = lat (input example_prior) \<and> lon (input rf) = lon (input example_prior) \<and>
        density_kg_m3 (input rf) = density_kg_m3 (input example_prior) \<and>
        impact_angle_deg (input rf) = impact_angle_deg (input example_prior)"
    using out rf by blast
  have i: "lat (input example_prior) = None" "lon (input example_prior) = None"
    "density_kg_m3 (input example_prior) = 3000" "impact_angle_deg (input example_prior) = 45"
    "diameter_m (input example_prior) = 50"
    by (simp_all add: example_prior_input)
  show ?thesis
    using same eqs rk rn rf k n f i by simp
qed

text \<open>
  C10. Two calls of \<open>simulate_impact\<close> that differ only in \<open>lat\<close> and \<open>lon\<close> (present or
  absent) fail alike or return results with the same mass, energies, crater diameter,
  damage radii and affected areas; \<open>lat\<close> and \<open>lon\<close> are copied into the stored input.
\<close>

theorem location_independence:
  "(\<forall>e. simulate_impact d v rho a la lo = Inl e \<longrightarrow>
        simulate_impact d v rho a la' lo' = Inl e) \<and>
   (\<forall>r. simulate_impact d v rho a la lo = Inr r \<longrightarrow>
      lat (input r) = la \<and> lon (input r) = lo \<and>
      (\<exists>r'. simulate_impact d v rho a la' lo' = Inr r' \<and>
         lat (input r') = la' \<and> lon (input r') = lo' \<and>
         mass_kg r' = mass_kg r \<and> energy_joules r' = energy_joules r \<and>
         energy_megatons r' = energy_megatons r \<and>
         crater_diameter_m r' = crater_diameter_m r \<and>
         damage_radii_m r' = damage_radii_m r \<and>
         affected_areas_km2 r' = affected_areas_km2 r))"
  by (auto simp: simulate_impact_def Let_def split: sum.splits)

theorem location_independence_witness:
  "simulate_impact 50 20000 (- 3000) 45 None None = Inl TypeError \<and>
   simulate_impact 50 20000 (- 3000) 45 (Some 10) (Some 20) = Inl TypeError \<and>
   simulate_impact 50 20000 3000 45 None None = Inr example_prior \<and>
   (\<exists>r'. simulate_impact 50 20000 3000 45 (Some 10) (Some 20) = Inr r' \<and>
      lat (input r') = Some 10 \<and> lon (input r') = Some 20 \<and>
      mass_kg r' = mass_kg example_prior \<and> energy_joules r' = energy_joules example_prior \<and>
      energy_megatons r' = energy_megatons example_prior \<and>
      crater_diameter_m r' = crater_diameter_m example_prior \<and>
      damage_radii_m r' = damage_radii_m example_prior \<and>
      affected_areas_km2 r' = affected_areas_km2 example_prior)"
  using location_independence [of 50 20000 "- 3000" 45 None None "Some 10" "Some 20"]
    location_independence [of 50 20000 3000 45 None None "Some 10" "Some 20"]
    negative_density_fails [of None None] example_prior_result
  by simp

end
